theory Spec2Isabelle
  imports Main
begin

section \<open>Values and objects\<close>

text \<open>
  The socket handlers of \<^verbatim>\<open>backend/src/services/socketHandlers.js\<close> work on loosely typed
  JavaScript objects. A value is a primitive, a date, an array or an object; an object is the
  list of its own properties in insertion order. Numbers are only stored and compared by the
  handlers, never computed with, and are kept as integers.
\<close>

datatype jsval =
    Undefined
  | Null
  | Bool bool
  | Num int
  | Str string
  | Date int
  | Arr "jsval list"
  | Obj "(string \<times> jsval) list"

type_synonym obj = "(string \<times> jsval) list"

text \<open>\<^verbatim>\<open>o[k]\<close>: reading a property that is absent gives \<^verbatim>\<open>undefined\<close>.\<close>

definition get :: "obj \<Rightarrow> string \<Rightarrow> jsval" where
  "get ob k = (case map_of ob k of None \<Rightarrow> Undefined | Some v \<Rightarrow> v)"

text \<open>\<^verbatim>\<open>o[k] = v\<close>: an existing property keeps its place, a new one is added last.\<close>

fun aset :: "'k \<Rightarrow> 'v \<Rightarrow> ('k \<times> 'v) list \<Rightarrow> ('k \<times> 'v) list" where
  "aset k v [] = [(k, v)]"
| "aset k v (p # ps) = (if fst p = k then (k, v) # ps else p # aset k v ps)"

text \<open>\<^verbatim>\<open>delete o[k]\<close>.\<close>

definition adel :: "'k \<Rightarrow> ('k \<times> 'v) list \<Rightarrow> ('k \<times> 'v) list" where
  "adel k ps = filter (\<lambda>p. fst p \<noteq> k) ps"

text \<open>\<^verbatim>\<open>Object.keys(o)\<close>.\<close>

definition keys :: "('k \<times> 'v) list \<Rightarrow> 'k list" where
  "keys ps = map fst ps"

text \<open>\<^verbatim>\<open>Object.assign(target, source)\<close>: for every key of the source, in the source's order,
  the source's value is read and written to the target.\<close>

definition assign :: "obj \<Rightarrow> obj \<Rightarrow> obj" where
  "assign target source = foldl (\<lambda>t key. aset key (get source key) t) target (keys source)"

text \<open>The truthiness \<^verbatim>\<open>||\<close> and \<^verbatim>\<open>!\<close> test.\<close>

fun truthy :: "jsval \<Rightarrow> bool" where
  "truthy Undefined = False"
| "truthy Null = False"
| "truthy (Bool b) = b"
| "truthy (Num n) = (n \<noteq> 0)"
| "truthy (Str s) = (s \<noteq> [])"
| "truthy (Date t) = True"
| "truthy (Arr xs) = True"
| "truthy (Obj ps) = True"

definition or_else :: "jsval \<Rightarrow> jsval \<Rightarrow> jsval" where
  "or_else a b = (if truthy a then a else b)"

text \<open>
  \<^verbatim>\<open>a === b\<close>. Primitives are compared by value. Dates, arrays and objects are compared by
  reference; every comparison in the handlers is between a value of the stored shape set and a
  value of the request or of the op log, so the two references are never the same.
\<close>

fun is_primitive :: "jsval \<Rightarrow> bool" where
  "is_primitive (Date t) = False"
| "is_primitive (Arr xs) = False"
| "is_primitive (Obj ps) = False"
| "is_primitive v = True"

definition strict_eq :: "jsval \<Rightarrow> jsval \<Rightarrow> bool" where
  "strict_eq a b = (is_primitive a \<and> a = b)"

text \<open>\<^verbatim>\<open>xs.findIndex(p)\<close>, with \<^verbatim>\<open>-1\<close> as \<open>None\<close>.\<close>

fun findIndex :: "('a \<Rightarrow> bool) \<Rightarrow> 'a list \<Rightarrow> nat option" where
  "findIndex P [] = None"
| "findIndex P (x # xs) =
     (if P x then Some 0 else (case findIndex P xs of None \<Rightarrow> None | Some i \<Rightarrow> Some (Suc i)))"

section \<open>Boards, ops, locks, presence and sockets\<close>

text \<open>A shape is an object; its identifier is its property \<^verbatim>\<open>id\<close>.\<close>

type_synonym shape = obj

definition has_id :: "jsval \<Rightarrow> shape \<Rightarrow> bool" where
  "has_id i s = strict_eq (get s ''id'') i"


text \<open>
  The payload of an op depends on its \<^verbatim>\<open>opType\<close>: a create op carries the shape, an update op
  \<^verbatim>\<open>{shapeId, changes, oldValues}\<close> (the op built by undo has no \<^verbatim>\<open>oldValues\<close>), a delete op
  \<^verbatim>\<open>{shapeId, deletedShape}\<close>.
\<close>

datatype payload =
    Create shape
  | Update jsval obj "obj option"
  | Delete jsval shape

record op =
  payload :: payload
  createdBy :: "string option"
  createdAt :: int

record board =
  ownerId :: string
  allowedUsers :: "string list"
  shapes :: "shape list"
  ops :: "op list"

record lock =
  socketId :: string
  userId :: string
  timestamp :: int

record presenceEntry =
  pUserId :: string
  userName :: string
  color :: string
  cursor :: obj

record userData =
  uUserId :: string
  uName :: string
  uEmail :: string

text \<open>
  A connection: \<^verbatim>\<open>socket.id\<close>, \<^verbatim>\<open>socket.userData\<close>, \<^verbatim>\<open>socket.currentBoardId\<close> and the rooms
  it is a member of.
\<close>

record socket =
  sid :: string
  userData :: "userData option"
  currentBoardId :: "string option"
  rooms :: "string set"

text \<open>
  The server's state: the stored boards by id (the document store behind
  \<^verbatim>\<open>Board.findById\<close> and \<^verbatim>\<open>board.save\<close>) and the two module-level tables \<^verbatim>\<open>locks\<close> and
  \<^verbatim>\<open>presence\<close>, each by board id and then by object id or socket id.

  The store is a get/put store of documents: \<^verbatim>\<open>findById\<close> returns a board as the last
  \<^verbatim>\<open>save\<close> left it, or throws, and \<^verbatim>\<open>save\<close> stores the document that the handler built, or
  throws. The casts, defaults and validation of the Mongoose schema in
  \<^verbatim>\<open>backend/src/models/Board.js\<close> are not part of the model; a \<^verbatim>\<open>save\<close> that the schema
  rejects is a \<^verbatim>\<open>save\<close> that throws. A handler runs from its first line to its last without
  another handler in between, and reads the clock once. A request carries the fields its
  handler reads, with board, shape, object and socket ids being strings.

  A board id is the id of a stored board, under which \<^verbatim>\<open>findById\<close> has found it when the
  connection joined, and a socket id is made by the server: neither is a name that a plain
  object inherits, so the tables are read under them as maps. Object ids are what a client
  sends; the read of a board's lock table under them is \<open>readLock\<close> below. A shape, a payload
  and a request are the records of their own fields.
\<close>

record state =
  db :: "string \<rightharpoonup> board"
  locks :: "string \<rightharpoonup> (string \<times> lock) list"
  presence :: "string \<rightharpoonup> (string \<times> presenceEntry) list"

text \<open>
  What a request meets outside the handler: the clock (\<^verbatim>\<open>Date.now()\<close>, milliseconds) and
  whether the store throws on the read or on the write, which the handlers catch.
\<close>

datatype store_fault = NoFault | FindThrows | SaveThrows

record env =
  now :: int
  fault :: store_fault

text \<open>The events a handler emits, and to whom.\<close>

datatype event =
    Error string
  | DrawStart obj
  | DrawDelta obj
  | DrawEnd obj
  | ShapeCreated shape
  | ShapeUpdated string obj
  | ShapeDeleted string
  | UndoApplied op "shape list"
  | LockUpdate string bool "string option"
  | LockFailed string "string option"
  | CursorUpdate string obj
  | UserLeft string

datatype target =
    ToSender
  | ToRoom string
  | ToOthers string

type_synonym emits = "(target \<times> event) list"

text \<open>\<^verbatim>\<open>!socket.currentBoardId\<close> is true for \<^verbatim>\<open>null\<close> and for the empty string.\<close>

definition joinedBoard :: "socket \<Rightarrow> string option" where
  "joinedBoard sock =
     (case currentBoardId sock of
        None \<Rightarrow> None
      | Some b \<Rightarrow> if b = [] then None else Some b)"

text \<open>\<^verbatim>\<open>socket.userData?.userId || null\<close> and \<^verbatim>\<open>socket.userData?.userId || socket.id\<close>.\<close>

definition actor :: "socket \<Rightarrow> string option" where
  "actor sock =
     (case userData sock of
        None \<Rightarrow> None
      | Some u \<Rightarrow> if uUserId u = [] then None else Some (uUserId u))"

definition actorOrSid :: "socket \<Rightarrow> string" where
  "actorOrSid sock = (case actor sock of None \<Rightarrow> sid sock | Some u \<Rightarrow> u)"

definition actorVal :: "socket \<Rightarrow> jsval" where
  "actorVal sock = (case actor sock of None \<Rightarrow> Null | Some u \<Rightarrow> Str u)"

section \<open>The lock table\<close>

definition LOCK_TIMEOUT :: int where
  "LOCK_TIMEOUT = 30000"

text \<open>
  \<^verbatim>\<open>cleanExpiredLocks(boardId)\<close>: for every key of the board's table, the lock is read and,
  when \<^verbatim>\<open>now - lock.timestamp > LOCK_TIMEOUT\<close>, deleted; the board's entry is deleted with it
  when no lock remains.
\<close>

definition expired :: "int \<Rightarrow> lock \<Rightarrow> bool" where
  "expired t l = (t - timestamp l > LOCK_TIMEOUT)"

definition expireStep :: "int \<Rightarrow> (string \<times> lock) list \<Rightarrow> string \<Rightarrow> (string \<times> lock) list" where
  "expireStep t tbl objectId =
     (case map_of tbl objectId of
        None \<Rightarrow> tbl
      | Some l \<Rightarrow> if expired t l then adel objectId tbl else tbl)"

definition cleanExpiredLocks ::
  "(string \<rightharpoonup> (string \<times> lock) list) \<Rightarrow> string \<Rightarrow> int \<Rightarrow> (string \<rightharpoonup> (string \<times> lock) list)" where
  "cleanExpiredLocks lks boardId t =
     (case lks boardId of
        None \<Rightarrow> lks
      | Some tbl \<Rightarrow>
          (let tbl' = foldl (expireStep t) tbl (keys tbl)
           in if tbl' = [] then lks(boardId := None) else lks(boardId \<mapsto> tbl')))"

text \<open>
  A board's table is a plain object (\<^verbatim>\<open>{}\<close>), and a client chooses the object id it is read
  under. Under a name that every plain object inherits from \<^verbatim>\<open>Object.prototype\<close> the read
  \<^verbatim>\<open>locks[boardId][objectId]\<close> gives the inherited member when the table has no entry of its
  own: a function, or for \<^verbatim>\<open>__proto__\<close> the prototype itself. It is truthy, and its
  \<^verbatim>\<open>socketId\<close>, \<^verbatim>\<open>userId\<close> and \<^verbatim>\<open>timestamp\<close> are \<^verbatim>\<open>undefined\<close>.
\<close>

definition protoNames :: "string list" where
  "protoNames =
     [''__defineGetter__'', ''__defineSetter__'', ''__lookupGetter__'', ''__lookupSetter__'',
      ''__proto__'', ''constructor'', ''hasOwnProperty'', ''isPrototypeOf'',
      ''propertyIsEnumerable'', ''toLocaleString'', ''toString'', ''valueOf'']"

datatype slot = Absent | Inherited | Own lock

text \<open>\<^verbatim>\<open>locks[boardId][objectId]\<close>, the board's table being \<open>tbl\<close>.\<close>

definition readLock :: "(string \<times> lock) list \<Rightarrow> string \<Rightarrow> slot" where
  "readLock tbl objectId =
     (case map_of tbl objectId of
        Some l \<Rightarrow> Own l
      | None \<Rightarrow> if objectId \<in> set protoNames then Inherited else Absent)"

text \<open>
  The lock held on an object: the entry that lock-object has written for it. The handler
  writes none under an inherited name (it finds the inherited member there and answers
  lock-failed), so no lock is held on such a name.
\<close>

definition lockOf :: "(string \<rightharpoonup> (string \<times> lock) list) \<Rightarrow> string \<Rightarrow> string \<Rightarrow> lock option" where
  "lockOf lks boardId objectId =
     (case lks boardId of
        None \<Rightarrow> None
      | Some tbl \<Rightarrow> if objectId \<in> set protoNames then None else map_of tbl objectId)"

text \<open>
  The \<^verbatim>\<open>lock-object\<close> handler. The expired locks are cleaned, the board's table is made if
  there is none, and the object is read: a lock of another socket, or an inherited member
  (whose \<^verbatim>\<open>socketId\<close>, \<^verbatim>\<open>undefined\<close>, is not the socket's id), is answered with lock-failed,
  naming the \<^verbatim>\<open>userId\<close> read.
\<close>

definition lock_object :: "state \<Rightarrow> socket \<Rightarrow> env \<Rightarrow> string \<Rightarrow> state \<times> emits" where
  "lock_object st sock e objectId =
     (case joinedBoard sock of
        None \<Rightarrow> (st, [])
      | Some boardId \<Rightarrow>
          (let lks1 = cleanExpiredLocks (locks st) boardId (now e);
               tbl = (case lks1 boardId of None \<Rightarrow> [] | Some t \<Rightarrow> t);
               acquired =
                 (st\<lparr>locks := lks1(boardId \<mapsto>
                      aset objectId
                        \<lparr>socketId = sid sock, userId = actorOrSid sock, timestamp = now e\<rparr> tbl)\<rparr>,
                  [(ToRoom boardId, LockUpdate objectId True (Some (actorOrSid sock)))])
           in case readLock tbl objectId of
                Absent \<Rightarrow> acquired
              | Inherited \<Rightarrow>
                  (st\<lparr>locks := lks1(boardId \<mapsto> tbl)\<rparr>,
                   [(ToSender, LockFailed objectId None)])
              | Own existingLock \<Rightarrow>
                  if socketId existingLock \<noteq> sid sock
                  then (st\<lparr>locks := lks1(boardId \<mapsto> tbl)\<rparr>,
                        [(ToSender, LockFailed objectId (Some (userId existingLock)))])
                  else acquired))"

text \<open>The \<^verbatim>\<open>unlock-object\<close> handler.\<close>

definition unlock_object :: "state \<Rightarrow> socket \<Rightarrow> string \<Rightarrow> state \<times> emits" where
  "unlock_object st sock objectId =
     (case joinedBoard sock of
        None \<Rightarrow> (st, [])
      | Some boardId \<Rightarrow>
          (case locks st boardId of
             None \<Rightarrow> (st, [])
           | Some tbl \<Rightarrow>
               (case readLock tbl objectId of
                  Absent \<Rightarrow> (st, [])
                | Inherited \<Rightarrow> (st, [])
                | Own l \<Rightarrow>
                    if socketId l \<noteq> sid sock then (st, [])
                    else (st\<lparr>locks := (locks st)(boardId \<mapsto> adel objectId tbl)\<rparr>,
                          [(ToRoom boardId, LockUpdate objectId False None)]))))"

section \<open>The operation log\<close>

text \<open>
  \<^verbatim>\<open>createUndoOp(op, board)\<close>: the compensating op of the given one, or \<^verbatim>\<open>null\<close>. For an
  update op the reverse changes are read off the shape as it is in the board now.
\<close>

fun createUndoOp :: "payload \<Rightarrow> board \<Rightarrow> payload option" where
  "createUndoOp (Create s) board = Some (Delete (get s ''id'') s)"
| "createUndoOp (Delete shapeId deletedShape) board = Some (Create deletedShape)"
| "createUndoOp (Update shapeId changes oldValues) board =
     (case find (has_id shapeId) (shapes board) of
        None \<Rightarrow> None
      | Some shape \<Rightarrow>
          Some (Update shapeId
                  (foldl (\<lambda>reverseChanges key. aset key (get shape key) reverseChanges)
                     [] (keys changes))
                  None))"

text \<open>\<^verbatim>\<open>applyOpToBoard(board, op)\<close>.\<close>

fun applyOpToBoard :: "board \<Rightarrow> payload \<Rightarrow> board" where
  "applyOpToBoard board (Create s) =
     (case find (has_id (get s ''id'')) (shapes board) of
        None \<Rightarrow> board\<lparr>shapes := shapes board @ [s]\<rparr>
      | Some existing \<Rightarrow> board)"
| "applyOpToBoard board (Delete shapeId deletedShape) =
     board\<lparr>shapes := filter (\<lambda>s. \<not> has_id shapeId s) (shapes board)\<rparr>"
| "applyOpToBoard board (Update shapeId changes oldValues) =
     (case findIndex (has_id shapeId) (shapes board) of
        None \<Rightarrow> board
      | Some shapeIndex \<Rightarrow>
          board\<lparr>shapes := (shapes board)[shapeIndex := assign (shapes board ! shapeIndex) changes]\<rparr>)"

text \<open>
  Replaying a log: the ops applied in order, by \<open>applyOpToBoard\<close>, to the empty shape set.
\<close>

definition replay :: "op list \<Rightarrow> shape list" where
  "replay log =
     shapes (foldl (\<lambda>b p. applyOpToBoard b (payload p))
               \<lparr>ownerId = [], allowedUsers = [], shapes = [], ops = []\<rparr> log)"

section \<open>The drawing and shape handlers\<close>

definition draw_start :: "state \<Rightarrow> socket \<Rightarrow> obj \<Rightarrow> state \<times> emits" where
  "draw_start st sock data =
     (case joinedBoard sock of
        None \<Rightarrow> (st, [])
      | Some boardId \<Rightarrow>
          (st, [(ToOthers boardId, DrawStart (aset ''userId'' (Str (actorOrSid sock)) data))]))"

definition draw_delta :: "state \<Rightarrow> socket \<Rightarrow> obj \<Rightarrow> state \<times> emits" where
  "draw_delta st sock data =
     (case joinedBoard sock of
        None \<Rightarrow> (st, [])
      | Some boardId \<Rightarrow>
          (st, [(ToOthers boardId, DrawDelta (aset ''userId'' (Str (actorOrSid sock)) data))]))"

definition draw_end :: "state \<Rightarrow> socket \<Rightarrow> env \<Rightarrow> obj \<Rightarrow> state \<times> emits" where
  "draw_end st sock e data =
     (case joinedBoard sock of
        None \<Rightarrow> (st, [])
      | Some boardId \<Rightarrow>
          if fault e = FindThrows then (st, [(ToSender, Error ''Failed to save drawing'')])
          else
            (case db st boardId of
               None \<Rightarrow> (st, [])
             | Some board \<Rightarrow>
                 (let shape =
                        [(''id'', get data ''id''),
                         (''type'', Str ''path''),
                         (''points'', get data ''points''),
                         (''color'', get data ''color''),
                         (''strokeWidth'', get data ''strokeWidth''),
                         (''layer'', or_else (get data ''layer'') (Str ''default'')),
                         (''createdBy'', actorVal sock),
                         (''createdAt'', Date (now e))];
                      opr = \<lparr>payload = Create shape, createdBy = actor sock, createdAt = now e\<rparr>;
                      board' = board\<lparr>shapes := shapes board @ [shape], ops := ops board @ [opr]\<rparr>
                  in if fault e = SaveThrows
                     then (st, [(ToSender, Error ''Failed to save drawing'')])
                     else (st\<lparr>db := (db st)(boardId \<mapsto> board')\<rparr>,
                           [(ToRoom boardId,
                             DrawEnd (aset ''userId'' (Str (actorOrSid sock)) data))]))))"

definition create_shape :: "state \<Rightarrow> socket \<Rightarrow> env \<Rightarrow> obj \<Rightarrow> state \<times> emits" where
  "create_shape st sock e data =
     (case joinedBoard sock of
        None \<Rightarrow> (st, [])
      | Some boardId \<Rightarrow>
          if fault e = FindThrows then (st, [(ToSender, Error ''Failed to create shape'')])
          else
            (case db st boardId of
               None \<Rightarrow> (st, [])
             | Some board \<Rightarrow>
                 (let shape =
                        [(''id'', get data ''id''),
                         (''type'', get data ''type''),
                         (''x'', get data ''x''),
                         (''y'', get data ''y''),
                         (''width'', get data ''width''),
                         (''height'', get data ''height''),
                         (''color'', get data ''color''),
                         (''strokeWidth'', get data ''strokeWidth''),
                         (''text'', or_else (get data ''text'') Null),
                         (''layer'', or_else (get data ''layer'') (Str ''default'')),
                         (''createdBy'', actorVal sock),
                         (''createdAt'', Date (now e))];
                      opr = \<lparr>payload = Create shape, createdBy = actor sock, createdAt = now e\<rparr>;
                      board' = board\<lparr>shapes := shapes board @ [shape], ops := ops board @ [opr]\<rparr>
                  in if fault e = SaveThrows
                     then (st, [(ToSender, Error ''Failed to create shape'')])
                     else (st\<lparr>db := (db st)(boardId \<mapsto> board')\<rparr>,
                           [(ToRoom boardId, ShapeCreated shape)]))))"

text \<open>
  The \<^verbatim>\<open>update-shape\<close> handler. The shape is looked up first, then the expired locks of the
  board are cleaned and the lock of the shape is checked, then the old values of the changed
  keys are recorded and the changes assigned.
\<close>

text \<open>
  The lock check of update-shape and delete-shape:
  \<^verbatim>\<open>lock = locks[boardId]?.[shapeId]; lock && lock.socketId !== socket.id\<close>. An inherited
  member counts as the lock of another socket.
\<close>

definition lockedByOther :: "state \<Rightarrow> socket \<Rightarrow> string \<Rightarrow> string \<Rightarrow> bool" where
  "lockedByOther st sock boardId objectId =
     (case locks st boardId of
        None \<Rightarrow> False
      | Some tbl \<Rightarrow>
          (case readLock tbl objectId of
             Absent \<Rightarrow> False
           | Inherited \<Rightarrow> True
           | Own l \<Rightarrow> socketId l \<noteq> sid sock))"

definition update_shape :: "state \<Rightarrow> socket \<Rightarrow> env \<Rightarrow> string \<Rightarrow> obj \<Rightarrow> state \<times> emits" where
  "update_shape st sock e shapeId changes =
     (case joinedBoard sock of
        None \<Rightarrow> (st, [])
      | Some boardId \<Rightarrow>
          if fault e = FindThrows then (st, [(ToSender, Error ''Failed to update shape'')])
          else
            (case db st boardId of
               None \<Rightarrow> (st, [])
             | Some board \<Rightarrow>
                 (case findIndex (has_id (Str shapeId)) (shapes board) of
                    None \<Rightarrow> (st, [(ToSender, Error ''Shape not found'')])
                  | Some shapeIndex \<Rightarrow>
                      (let st1 = st\<lparr>locks := cleanExpiredLocks (locks st) boardId (now e)\<rparr>
                       in if lockedByOther st1 sock boardId shapeId
                          then (st1, [(ToSender, Error ''Object is locked by another user'')])
                          else
                            (let shape = shapes board ! shapeIndex;
                                 oldValues =
                                   foldl (\<lambda>old key. aset key (get shape key) old) [] (keys changes);
                                 opr = \<lparr>payload = Update (Str shapeId) changes (Some oldValues),
                                        createdBy = actor sock, createdAt = now e\<rparr>;
                                 board' =
                                   board\<lparr>shapes := (shapes board)[shapeIndex := assign shape changes],
                                         ops := ops board @ [opr]\<rparr>
                             in if fault e = SaveThrows
                                then (st1, [(ToSender, Error ''Failed to update shape'')])
                                else (st1\<lparr>db := (db st1)(boardId \<mapsto> board')\<rparr>,
                                      [(ToRoom boardId, ShapeUpdated shapeId changes)]))))))"

definition delete_shape :: "state \<Rightarrow> socket \<Rightarrow> env \<Rightarrow> string \<Rightarrow> state \<times> emits" where
  "delete_shape st sock e shapeId =
     (case joinedBoard sock of
        None \<Rightarrow> (st, [])
      | Some boardId \<Rightarrow>
          if fault e = FindThrows then (st, [(ToSender, Error ''Failed to delete shape'')])
          else
            (case db st boardId of
               None \<Rightarrow> (st, [])
             | Some board \<Rightarrow>
                 (case find (has_id (Str shapeId)) (shapes board) of
                    None \<Rightarrow> (st, [(ToSender, Error ''Shape not found'')])
                  | Some shape \<Rightarrow>
                      (let st1 = st\<lparr>locks := cleanExpiredLocks (locks st) boardId (now e)\<rparr>
                       in if lockedByOther st1 sock boardId shapeId
                          then (st1, [(ToSender, Error ''Object is locked by another user'')])
                          else
                            (let opr = \<lparr>payload = Delete (Str shapeId) shape,
                                        createdBy = actor sock, createdAt = now e\<rparr>;
                                 board' =
                                   board\<lparr>shapes := filter (\<lambda>s. \<not> has_id (Str shapeId) s) (shapes board),
                                         ops := ops board @ [opr]\<rparr>
                             in if fault e = SaveThrows
                                then (st1, [(ToSender, Error ''Failed to delete shape'')])
                                else (st1\<lparr>db := (db st1)(boardId \<mapsto> board')\<rparr>,
                                      [(ToRoom boardId, ShapeDeleted shapeId)]))))))"

text \<open>
  The \<^verbatim>\<open>undo\<close> handler: the compensating op of the last op of the log is applied to the
  board by \<open>applyOpToBoard\<close> and appended to the log.
\<close>

definition undo :: "state \<Rightarrow> socket \<Rightarrow> env \<Rightarrow> state \<times> emits" where
  "undo st sock e =
     (case joinedBoard sock of
        None \<Rightarrow> (st, [])
      | Some boardId \<Rightarrow>
          if fault e = FindThrows then (st, [(ToSender, Error ''Failed to undo'')])
          else
            (case db st boardId of
               None \<Rightarrow> (st, [(ToSender, Error ''Nothing to undo'')])
             | Some board \<Rightarrow>
                 if ops board = [] then (st, [(ToSender, Error ''Nothing to undo'')])
                 else
                   (case createUndoOp (payload (last (ops board))) board of
                      None \<Rightarrow> (st, [(ToSender, Error ''Cannot undo this operation'')])
                    | Some undoPayload \<Rightarrow>
                        (let board1 = applyOpToBoard board undoPayload;
                             undoOp = \<lparr>payload = undoPayload, createdBy = actor sock,
                                       createdAt = now e\<rparr>;
                             board2 = board1\<lparr>ops := ops board1 @ [undoOp]\<rparr>
                         in if fault e = SaveThrows
                            then (st, [(ToSender, Error ''Failed to undo'')])
                            else (st\<lparr>db := (db st)(boardId \<mapsto> board2)\<rparr>,
                                  [(ToRoom boardId, UndoApplied undoOp (shapes board2))])))))"

section \<open>Presence and the end of a session\<close>

definition cursor_move :: "state \<Rightarrow> socket \<Rightarrow> obj \<Rightarrow> state \<times> emits" where
  "cursor_move st sock data =
     (case joinedBoard sock of
        None \<Rightarrow> (st, [])
      | Some boardId \<Rightarrow>
          (case presence st boardId of
             None \<Rightarrow> (st, [])
           | Some entries \<Rightarrow>
               (case map_of entries (sid sock) of
                  None \<Rightarrow> (st, [])
                | Some entry \<Rightarrow>
                    (st\<lparr>presence := (presence st)(boardId \<mapsto>
                          aset (sid sock)
                            (entry\<lparr>cursor := [(''x'', get data ''x''), (''y'', get data ''y'')]\<rparr>)
                            entries)\<rparr>,
                     [(ToOthers boardId, CursorUpdate (pUserId entry) data)]))))"

text \<open>
  The \<^verbatim>\<open>leave-board\<close> handler: the socket leaves the room, its presence entry is deleted and
  \<^verbatim>\<open>user-left\<close> is sent to the others; \<^verbatim>\<open>socket.currentBoardId\<close> becomes \<^verbatim>\<open>null\<close>.
\<close>

definition leave_board :: "state \<Rightarrow> socket \<Rightarrow> (state \<times> socket) \<times> emits" where
  "leave_board st sock =
     (case joinedBoard sock of
        None \<Rightarrow> ((st, sock), [])
      | Some boardId \<Rightarrow>
          (let sock' = sock\<lparr>currentBoardId := None, rooms := rooms sock - {boardId}\<rparr>
           in case presence st boardId of
                None \<Rightarrow> ((st, sock'), [])
              | Some entries \<Rightarrow>
                  ((st\<lparr>presence := (presence st)(boardId \<mapsto> adel (sid sock) entries)\<rparr>, sock'),
                   [(ToOthers boardId, UserLeft (sid sock))])))"

text \<open>
  The \<^verbatim>\<open>disconnect\<close> handler: the presence entry is deleted and \<^verbatim>\<open>user-left\<close> sent, then for
  every key of the board's lock table the lock is read and, when its \<^verbatim>\<open>socketId\<close> is the
  socket's, deleted, with a \<^verbatim>\<open>lock-update\<close> to the room.
\<close>

definition releaseStep ::
  "string \<Rightarrow> string \<Rightarrow> (string \<times> lock) list \<times> emits \<Rightarrow> string \<Rightarrow> (string \<times> lock) list \<times> emits" where
  "releaseStep boardId socketid acc objectId =
     (case map_of (fst acc) objectId of
        None \<Rightarrow> acc
      | Some l \<Rightarrow>
          if socketId l = socketid
          then (adel objectId (fst acc),
                snd acc @ [(ToRoom boardId, LockUpdate objectId False None)])
          else acc)"

definition disconnect :: "state \<Rightarrow> socket \<Rightarrow> state \<times> emits" where
  "disconnect st sock =
     (case joinedBoard sock of
        None \<Rightarrow> (st, [])
      | Some boardId \<Rightarrow>
          (let (presence', left) =
                 (case presence st boardId of
                    None \<Rightarrow> (presence st, [])
                  | Some entries \<Rightarrow>
                      ((presence st)(boardId \<mapsto> adel (sid sock) entries),
                       [(ToOthers boardId, UserLeft (sid sock))]));
               (locks', released) =
                 (case locks st boardId of
                    None \<Rightarrow> (locks st, [])
                  | Some tbl \<Rightarrow>
                      (let (tbl', evs) = foldl (releaseStep boardId (sid sock)) (tbl, []) (keys tbl)
                       in ((locks st)(boardId \<mapsto> tbl'), evs)))
           in (st\<lparr>presence := presence', locks := locks'\<rparr>, left @ released)))"

section \<open>The boards the handlers produce\<close>


section \<open>A board with two connections\<close>

text \<open>
  The concrete states the statements below are evaluated at: board \<^verbatim>\<open>b1\<close>, owned by the user
  of connection \<^verbatim>\<open>A\<close>, with a second connection \<^verbatim>\<open>B\<close> joined to it and a connection \<^verbatim>\<open>U\<close>
  that has joined no board.
\<close>

definition sockA :: socket where
  "sockA = \<lparr>sid = ''A'',
            userData = Some \<lparr>uUserId = ''userA'', uName = ''Ann'', uEmail = ''ann@example.org''\<rparr>,
            currentBoardId = Some ''b1'', rooms = {''b1''}\<rparr>"

definition sockB :: socket where
  "sockB = \<lparr>sid = ''B'',
            userData = Some \<lparr>uUserId = ''userB'', uName = ''Bob'', uEmail = ''bob@example.org''\<rparr>,
            currentBoardId = Some ''b1'', rooms = {''b1''}\<rparr>"

definition sockU :: socket where
  "sockU = \<lparr>sid = ''U'', userData = None, currentBoardId = None, rooms = {}\<rparr>"

definition newBoard :: board where
  "newBoard = \<lparr>ownerId = ''userA'', allowedUsers = [''userA'', ''userB''], shapes = [], ops = []\<rparr>"

definition rectData :: obj where
  "rectData = [(''id'', Str ''s1''), (''type'', Str ''rect''), (''x'', Num 3), (''y'', Num 0),
               (''width'', Num 10), (''height'', Num 10), (''color'', Str ''red''),
               (''strokeWidth'', Num 2)]"

definition presAB :: "string \<rightharpoonup> (string \<times> presenceEntry) list" where
  "presAB = [''b1'' \<mapsto>
       [(''A'', \<lparr>pUserId = ''userA'', userName = ''Ann'', color = ''#FF6B6B'',
                cursor = [(''x'', Num 0), (''y'', Num 0)]\<rparr>),
        (''B'', \<lparr>pUserId = ''userB'', userName = ''Bob'', color = ''#4ECDC4'',
                cursor = [(''x'', Num 0), (''y'', Num 0)]\<rparr>)]]"

definition at :: "int \<Rightarrow> env" where
  "at t = \<lparr>now = t, fault = NoFault\<rparr>"

text \<open>
  The shape that the create-shape request \<open>rectData\<close> of \<^verbatim>\<open>A\<close> at time \<open>t\<close> builds, and the
  boards that follow from the new board: after that request at time 5 (\<open>boardC\<close>), after the
  same request once more at time 6 (\<open>boardCC\<close>), and after \<^verbatim>\<open>B\<close> has deleted the shape at time 6
  instead (\<open>boardD\<close>).
\<close>

definition rectAt :: "int \<Rightarrow> shape" where
  "rectAt t = [(''id'', Str ''s1''), (''type'', Str ''rect''), (''x'', Num 3), (''y'', Num 0),
               (''width'', Num 10), (''height'', Num 10), (''color'', Str ''red''),
               (''strokeWidth'', Num 2), (''text'', Null), (''layer'', Str ''default''),
               (''createdBy'', Str ''userA''), (''createdAt'', Date t)]"

definition createOp :: "int \<Rightarrow> op" where
  "createOp t = \<lparr>payload = Create (rectAt t), createdBy = Some ''userA'', createdAt = t\<rparr>"

definition boardC :: board where
  "boardC = newBoard\<lparr>shapes := [rectAt 5], ops := [createOp 5]\<rparr>"

definition boardCC :: board where
  "boardCC = newBoard\<lparr>shapes := [rectAt 5, rectAt 6], ops := [createOp 5, createOp 6]\<rparr>"


definition stOf :: "board \<Rightarrow> state" where
  "stOf board = \<lparr>db = [''b1'' \<mapsto> board], locks = Map.empty, presence = presAB\<rparr>"

text \<open>
  Connection \<^verbatim>\<open>A\<close> holds a lock taken at time 0: on the rectangle \<^verbatim>\<open>s1\<close> of \<open>boardC\<close> in
  \<open>stLockedA\<close>, on the object id \<^verbatim>\<open>s9\<close>, which no shape of the board carries, in
  \<open>stGhost\<close>.
\<close>

definition lockA0 :: lock where
  "lockA0 = \<lparr>socketId = ''A'', userId = ''userA'', timestamp = 0\<rparr>"

definition stLockedA :: state where
  "stLockedA = \<lparr>db = [''b1'' \<mapsto> boardC],
                locks = [''b1'' \<mapsto> [(''s1'', lockA0)]], presence = presAB\<rparr>"

definition stGhost :: state where
  "stGhost = \<lparr>db = [''b1'' \<mapsto> boardC],
              locks = [''b1'' \<mapsto> [(''s9'', lockA0)]], presence = presAB\<rparr>"

text \<open>
  The rectangle moved to \<open>x = 5\<close>, the board after the update-shape request
  \<^verbatim>\<open>{shapeId: "s1", changes: {x: 5}}\<close> of \<^verbatim>\<open>A\<close> at time 6 on \<open>boardC\<close>, and the op that an
  undo at time 7 appends to it.
\<close>

definition rectMoved :: shape where
  "rectMoved = [(''id'', Str ''s1''), (''type'', Str ''rect''), (''x'', Num 5), (''y'', Num 0),
                (''width'', Num 10), (''height'', Num 10), (''color'', Str ''red''),
                (''strokeWidth'', Num 2), (''text'', Null), (''layer'', Str ''default''),
                (''createdBy'', Str ''userA''), (''createdAt'', Date 5)]"

definition boardU :: board where
  "boardU = newBoard\<lparr>shapes := [rectMoved],
              ops := [createOp 5,
                      \<lparr>payload = Update (Str ''s1'') [(''x'', Num 5)] (Some [(''x'', Num 3)]),
                       createdBy = Some ''userA'', createdAt = 6\<rparr>]\<rparr>"

definition undoOfUpdate :: op where
  "undoOfUpdate = \<lparr>payload = Update (Str ''s1'') [(''x'', Num 5)] None,
                    createdBy = Some ''userA'', createdAt = 7\<rparr>"



definition pathData :: obj where
  "pathData = [(''id'', Str ''s1''),
               (''points'', Arr [Obj [(''x'', Num 0), (''y'', Num 0)], Obj [(''x'', Num 4), (''y'', Num 4)]]),
               (''color'', Str ''blue''), (''strokeWidth'', Num 2)]"





section \<open>Objects, searches and the lock sweep\<close>

lemma map_of_aset: "map_of (aset k v ps) = (map_of ps)(k \<mapsto> v)"
  by (induction ps) auto


lemma map_of_adel: "map_of (adel k ps) = (map_of ps)(k := None)"
  unfolding adel_def by (induction ps) auto




lemma findIndex_None: "findIndex P xs = None \<longleftrightarrow> (\<forall>x\<in>set xs. \<not> P x)"
  by (induction xs) (auto split: option.splits)


lemma map_of_expireStep:
  "map_of (expireStep t tbl a) k =
     (if k = a
      then (case map_of tbl a of None \<Rightarrow> None | Some l \<Rightarrow> if expired t l then None else Some l)
      else map_of tbl k)"
  by (auto simp: expireStep_def map_of_adel split: option.splits)

lemma map_of_expire_fold:
  "map_of (foldl (expireStep t) tbl ks) k =
     (if k \<in> set ks
      then (case map_of tbl k of None \<Rightarrow> None | Some l \<Rightarrow> if expired t l then None else Some l)
      else map_of tbl k)"
proof (induction ks arbitrary: tbl)
  case Nil
  then show ?case by simp
next
  case (Cons a ks)
  show ?case
    by (simp add: Cons.IH map_of_expireStep split: option.splits)
qed

lemma lockOf_notproto: "lockOf lks b S = Some l \<Longrightarrow> S \<notin> set protoNames"
  by (auto simp: lockOf_def split: option.splits if_splits)

lemma lockOf_own:
  "S \<notin> set protoNames \<Longrightarrow>
   lockOf lks b S = (case lks b of None \<Rightarrow> None | Some tbl \<Rightarrow> map_of tbl S)"
  by (simp add: lockOf_def split: option.splits)

lemma lockOf_proto: "S \<in> set protoNames \<Longrightarrow> lockOf lks b S = None"
  by (simp add: lockOf_def split: option.splits)

lemma readLock_own:
  "S \<notin> set protoNames \<Longrightarrow>
   readLock tbl S = (case map_of tbl S of None \<Rightarrow> Absent | Some l \<Rightarrow> Own l)"
  by (simp add: readLock_def split: option.splits)

lemma map_of_clean_tbl:
  "map_of (foldl (expireStep t) tbl (keys tbl)) k =
     (case map_of tbl k of None \<Rightarrow> None | Some l \<Rightarrow> if expired t l then None else Some l)"
proof (cases "k \<in> set (keys tbl)")
  case True
  then show ?thesis by (simp add: map_of_expire_fold)
next
  case False
  then have "map_of tbl k = None"
    by (simp add: keys_def map_of_eq_None_iff)
  with False show ?thesis by (simp add: map_of_expire_fold)
qed

lemma lockOf_clean:
  "lockOf (cleanExpiredLocks lks b t) b S =
     (case lockOf lks b S of None \<Rightarrow> None | Some l \<Rightarrow> if expired t l then None else Some l)"
proof (cases "S \<in> set protoNames")
  case True
  then show ?thesis by (simp add: lockOf_proto)
next
  case np: False
  show ?thesis
  proof (cases "lks b")
    case None
    then show ?thesis by (simp add: cleanExpiredLocks_def lockOf_own np)
  next
    case (Some tbl)
    show ?thesis
    proof (cases "foldl (expireStep t) tbl (keys tbl) = []")
      case True
      then have "map_of (foldl (expireStep t) tbl (keys tbl)) S = None" by simp
      then have "(case map_of tbl S of None \<Rightarrow> None
                  | Some l \<Rightarrow> if expired t l then None else Some l) = None"
        by (simp add: map_of_clean_tbl)
      with Some True show ?thesis
        by (simp add: cleanExpiredLocks_def lockOf_own np)
    next
      case False
      with Some show ?thesis
        by (simp add: cleanExpiredLocks_def lockOf_own np map_of_clean_tbl)
    qed
  qed
qed

lemma readLock_clean:
  assumes np: "S \<notin> set protoNames"
  shows "readLock (case cleanExpiredLocks lks b t b of None \<Rightarrow> [] | Some tb \<Rightarrow> tb) S =
           (case lockOf (cleanExpiredLocks lks b t) b S of None \<Rightarrow> Absent | Some l \<Rightarrow> Own l)"
  by (simp add: readLock_own lockOf_own np split: option.splits)

lemma lock_object_free:
  assumes j: "joinedBoard sock = Some b"
    and np: "S \<notin> set protoNames"
    and free: "lockOf (cleanExpiredLocks (locks st) b (now e)) b S = None
               \<or> (\<exists>l. lockOf (cleanExpiredLocks (locks st) b (now e)) b S = Some l \<and> socketId l = sid sock)"
  shows "snd (lock_object st sock e S) = [(ToRoom b, LockUpdate S True (Some (actorOrSid sock)))] \<and>
         lockOf (locks (fst (lock_object st sock e S))) b S =
           Some \<lparr>socketId = sid sock, userId = actorOrSid sock, timestamp = now e\<rparr>"
  using free
  by (auto simp: lock_object_def j Let_def readLock_own lockOf_own np map_of_aset
      split: option.splits)

lemma lock_object_held:
  assumes j: "joinedBoard sock = Some b"
    and held: "lockOf (cleanExpiredLocks (locks st) b (now e)) b S = Some l"
    and other: "socketId l \<noteq> sid sock"
  shows "snd (lock_object st sock e S) = [(ToSender, LockFailed S (Some (userId l)))] \<and>
         lockOf (locks (fst (lock_object st sock e S))) b S = Some l"
proof -
  have np: "S \<notin> set protoNames" using held by (rule lockOf_notproto)
  show ?thesis
    using held other
    by (auto simp: lock_object_def j Let_def readLock_own lockOf_own np map_of_aset
        split: option.splits)
qed

lemma find_Some_mem: "s \<in> set xs \<Longrightarrow> P s \<Longrightarrow> \<exists>s'. find P xs = Some s' \<and> P s' \<and> s' \<in> set xs"
  by (induction xs) auto

lemma findIndex_Some_mem: "s \<in> set xs \<Longrightarrow> P s \<Longrightarrow> \<exists>i. findIndex P xs = Some i"
  using findIndex_None [of P xs] by (cases "findIndex P xs") auto

lemma lockedByOther_lockOf:
  "S \<notin> set protoNames \<Longrightarrow>
   lockedByOther st sock b S =
     (case lockOf (locks st) b S of None \<Rightarrow> False | Some l \<Rightarrow> socketId l \<noteq> sid sock)"
  by (simp add: lockedByOther_def readLock_own lockOf_own split: option.splits)

lemma lockedByOther_clean:
  "S \<notin> set protoNames \<Longrightarrow>
   lockedByOther (st\<lparr>locks := cleanExpiredLocks (locks st) b t\<rparr>) sock b S =
     (case lockOf (locks st) b S of
        None \<Rightarrow> False
      | Some l \<Rightarrow> \<not> expired t l \<and> socketId l \<noteq> sid sock)"
  by (simp add: lockedByOther_lockOf lockOf_clean split: option.splits)

lemma update_shape_conflict:
  assumes "joinedBoard sock = Some b" "fault e \<noteq> FindThrows" "db st b = Some board"
    and "findIndex (has_id (Str S)) (shapes board) = Some i"
    and "lockOf (locks st) b S = Some l" "\<not> expired (now e) l" "socketId l \<noteq> sid sock"
  shows "update_shape st sock e S changes =
           (st\<lparr>locks := cleanExpiredLocks (locks st) b (now e)\<rparr>,
            [(ToSender, Error ''Object is locked by another user'')])"
  using assms lockOf_notproto [of "locks st" b S l]
  by (simp add: update_shape_def Let_def lockedByOther_clean)

lemma delete_shape_conflict:
  assumes "joinedBoard sock = Some b" "fault e \<noteq> FindThrows" "db st b = Some board"
    and "find (has_id (Str S)) (shapes board) = Some s"
    and "lockOf (locks st) b S = Some l" "\<not> expired (now e) l" "socketId l \<noteq> sid sock"
  shows "delete_shape st sock e S =
           (st\<lparr>locks := cleanExpiredLocks (locks st) b (now e)\<rparr>,
            [(ToSender, Error ''Object is locked by another user'')])"
  using assms lockOf_notproto [of "locks st" b S l]
  by (simp add: delete_shape_def Let_def lockedByOther_clean)

lemma update_shape_ok:
  assumes "joinedBoard sock = Some b" "fault e = NoFault" "db st b = Some board"
    and "findIndex (has_id (Str S)) (shapes board) = Some i"
    and "\<not> lockedByOther (st\<lparr>locks := cleanExpiredLocks (locks st) b (now e)\<rparr>) sock b S"
  shows "update_shape st sock e S changes =
           (st\<lparr>locks := cleanExpiredLocks (locks st) b (now e),
               db := (db st)(b \<mapsto>
                 board\<lparr>shapes := (shapes board)[i := assign (shapes board ! i) changes],
                       ops := ops board @
                         [\<lparr>payload = Update (Str S) changes
                              (Some (foldl (\<lambda>old key. aset key (get (shapes board ! i) key) old) []
                                       (keys changes))),
                           createdBy = actor sock, createdAt = now e\<rparr>]\<rparr>)\<rparr>,
            [(ToRoom b, ShapeUpdated S changes)])"
  using assms by (simp add: update_shape_def Let_def)

lemma delete_shape_ok:
  assumes "joinedBoard sock = Some b" "fault e = NoFault" "db st b = Some board"
    and "find (has_id (Str S)) (shapes board) = Some s"
    and "\<not> lockedByOther (st\<lparr>locks := cleanExpiredLocks (locks st) b (now e)\<rparr>) sock b S"
  shows "delete_shape st sock e S =
           (st\<lparr>locks := cleanExpiredLocks (locks st) b (now e),
               db := (db st)(b \<mapsto>
                 board\<lparr>shapes := filter (\<lambda>s. \<not> has_id (Str S) s) (shapes board),
                       ops := ops board @
                         [\<lparr>payload = Delete (Str S) s, createdBy = actor sock,
                           createdAt = now e\<rparr>]\<rparr>)\<rparr>,
            [(ToRoom b, ShapeDeleted S)])"
  using assms by (simp add: delete_shape_def Let_def)

section \<open>What the saving handlers write\<close>












section \<open>The example runs\<close>

lemma ex_joined: "joinedBoard sockA = Some ''b1''" "joinedBoard sockB = Some ''b1''"
  by (simp_all add: joinedBoard_def sockA_def sockB_def)

lemma ex_has_id: "has_id (Str ''s1'') (rectAt t)" "\<not> has_id (Str ''s9'') (rectAt t)"
  by (simp_all add: has_id_def strict_eq_def get_def rectAt_def)

lemma ex_notproto: "''s1'' \<notin> set protoNames" "''s9'' \<notin> set protoNames"
  by (simp_all add: protoNames_def)

lemma ex_boardC: "shapes boardC = [rectAt 5]" "ops boardC = [createOp 5]"
  by (simp_all add: boardC_def)

lemma ex_actor: "actor sockA = Some ''userA''" "actor sockB = Some ''userB''"
  "actorVal sockA = Str ''userA''" "actorOrSid sockA = ''userA''" "actorOrSid sockB = ''userB''"
  by (simp_all add: actor_def actorVal_def actorOrSid_def sockA_def sockB_def)

lemma ex_rectAt_id: "get (rectAt t) ''id'' = Str ''s1''" "has_id (Str ''s1'') (rectAt t)"
  by (simp_all add: has_id_def strict_eq_def get_def rectAt_def)

lemma ex_rectMoved_id: "has_id (Str ''s1'') rectMoved"
  by (simp add: has_id_def strict_eq_def get_def rectMoved_def)


lemma ex_create: "create_shape (stOf newBoard) sockA (at 5) rectData = (stOf boardC, [(ToRoom ''b1'', ShapeCreated (rectAt 5))])"
  by (simp add: create_shape_def ex_joined ex_actor at_def stOf_def boardC_def rectAt_def createOp_def
      get_def rectData_def or_else_def Let_def newBoard_def)

lemma ex_create_again: "create_shape (stOf boardC) sockA (at 6) rectData = (stOf boardCC, [(ToRoom ''b1'', ShapeCreated (rectAt 6))])"
  by (simp add: create_shape_def ex_joined ex_actor at_def stOf_def boardC_def boardCC_def rectAt_def createOp_def
      get_def rectData_def or_else_def Let_def newBoard_def)





section \<open>Undo of an update\<close>

text \<open>
  C1. Undo of an update is to write back the values the shape had before the update, which
  the update op records as \<^verbatim>\<open>oldValues\<close>. The code does not: \<open>createUndoOp\<close> reads the reverse
  changes off the shape as it is now. On the board with the rectangle \<^verbatim>\<open>s1\<close> at \<open>x = 3\<close>, after
  update-shape with \<^verbatim>\<open>{x: 5}\<close> the undo appends an update op whose changes are \<^verbatim>\<open>{x: 5}\<close>, and
  the shape set it broadcasts and stores still has \<open>x = 5\<close>.
\<close>

theorem undo_of_update_keeps_new_value:
  "get (rectAt 5) ''x'' = Num 3 \<and>
   update_shape (stOf boardC) sockA (at 6) ''s1'' [(''x'', Num 5)] =
     (stOf boardU, [(ToRoom ''b1'', ShapeUpdated ''s1'' [(''x'', Num 5)])]) \<and>
   undo (stOf boardU) sockA (at 7) =
     (stOf (boardU\<lparr>ops := ops boardU @ [undoOfUpdate]\<rparr>),
      [(ToRoom ''b1'', UndoApplied undoOfUpdate [rectMoved])]) \<and>
   get rectMoved ''x'' = Num 5"
proof -
  have a: "get (rectAt 5) ''x'' = Num 3" by (simp add: get_def rectAt_def)
  have b: "update_shape (stOf boardC) sockA (at 6) ''s1'' [(''x'', Num 5)] =
     (stOf boardU, [(ToRoom ''b1'', ShapeUpdated ''s1'' [(''x'', Num 5)])])"
    by (simp add: update_shape_def ex_joined ex_actor at_def stOf_def Let_def
      has_id_def strict_eq_def boardC_def createOp_def
      lockedByOther_def readLock_own lockOf_own ex_notproto assign_def keys_def get_def rectAt_def rectMoved_def newBoard_def
      cleanExpiredLocks_def boardU_def)
  have c: "undo (stOf boardU) sockA (at 7) =
     (stOf (boardU\<lparr>ops := ops boardU @ [undoOfUpdate]\<rparr>),
      [(ToRoom ''b1'', UndoApplied undoOfUpdate [rectMoved])])"
    by (simp add: undo_def ex_joined ex_actor at_def stOf_def boardU_def undoOfUpdate_def Let_def
        ex_rectMoved_id keys_def assign_def newBoard_def)
      (simp add: get_def rectMoved_def)
  have d: "get rectMoved ''x'' = Num 5" by (simp add: get_def rectMoved_def)
  show ?thesis using a b c d by blast
qed

section \<open>The log and the shape set\<close>

text \<open>
  C2. The shape set is to equal the replay of the log. The code breaks this when a create
  request carries an id that is in the set already: starting from the new board, two
  create-shape requests with the id \<^verbatim>\<open>s1\<close> leave two shapes in the set, while the replay of
  the two create ops by \<open>applyOpToBoard\<close> holds one.
\<close>

theorem log_replay_differs_after_duplicate_create:
  "shapes newBoard = [] \<and> ops newBoard = [] \<and>
   create_shape (stOf newBoard) sockA (at 5) rectData =
     (stOf boardC, [(ToRoom ''b1'', ShapeCreated (rectAt 5))]) \<and>
   create_shape (stOf boardC) sockA (at 6) rectData =
     (stOf boardCC, [(ToRoom ''b1'', ShapeCreated (rectAt 6))]) \<and>
   shapes boardCC = [rectAt 5, rectAt 6] \<and>
   replay (ops boardCC) = [rectAt 5]"
proof -
  have r: "replay (ops boardCC) = [rectAt 5]"
    by (simp add: replay_def boardCC_def createOp_def ex_rectAt_id)
  have s: "shapes boardCC = [rectAt 5, rectAt 6]" by (simp add: boardCC_def)
  have n: "shapes newBoard = [] \<and> ops newBoard = []" by (simp add: newBoard_def)
  show ?thesis using n ex_create ex_create_again s r by blast
qed

text \<open>
  C3. A create request whose id is in the shape set already is to leave the set as it is.
  The create-shape and draw-end handlers push the shape without looking: on the board that
  holds the rectangle \<^verbatim>\<open>s1\<close>, a second create-shape with the id \<^verbatim>\<open>s1\<close>, or a draw-end with
  it, leaves two shapes with that id in the set.
\<close>

theorem duplicate_create_is_stored_twice:
  "get rectData ''id'' = Str ''s1'' \<and> get pathData ''id'' = Str ''s1'' \<and>
   shapes boardC = [rectAt 5] \<and> has_id (Str ''s1'') (rectAt 5) \<and>
   db (fst (create_shape (stOf boardC) sockA (at 6) rectData)) ''b1'' = Some boardCC \<and>
   filter (has_id (Str ''s1'')) (shapes boardCC) = [rectAt 5, rectAt 6] \<and>
   (\<exists>board'. db (fst (draw_end (stOf boardC) sockA (at 6) pathData)) ''b1'' = Some board' \<and>
      length (filter (has_id (Str ''s1'')) (shapes board')) = 2)"
proof -
  have a: "get rectData ''id'' = Str ''s1'' \<and> get pathData ''id'' = Str ''s1''"
    by (simp add: get_def rectData_def pathData_def)
  have b: "shapes boardC = [rectAt 5] \<and> has_id (Str ''s1'') (rectAt 5)"
    by (simp add: boardC_def ex_rectAt_id)
  have c: "db (fst (create_shape (stOf boardC) sockA (at 6) rectData)) ''b1'' = Some boardCC"
    by (simp add: ex_create_again, simp add: stOf_def)
  have d: "filter (has_id (Str ''s1'')) (shapes boardCC) = [rectAt 5, rectAt 6]"
    by (simp add: boardCC_def ex_rectAt_id)
  have e: "\<exists>board'. db (fst (draw_end (stOf boardC) sockA (at 6) pathData)) ''b1'' = Some board' \<and>
      length (filter (has_id (Str ''s1'')) (shapes board')) = 2"
    by (simp add: draw_end_def ex_joined at_def stOf_def Let_def boardC_def ex_rectAt_id)
      (simp add: has_id_def strict_eq_def get_def pathData_def)
  show ?thesis using a b c d e by blast
qed

section \<open>Leaving a board\<close>

text \<open>
  C4. Leaving a board is to release the locks of the connection. The leave-board handler
  removes the presence entry and sends \<^verbatim>\<open>user-left\<close>, and leaves the lock table alone: the lock
  that \<^verbatim>\<open>A\<close> holds on \<^verbatim>\<open>s1\<close> is still in the table after \<^verbatim>\<open>A\<close> has left, and no lock-update is
  sent. The disconnect handler, on the same state, deletes the lock and sends the
  lock-update.
\<close>

theorem leave_board_keeps_locks:
  "joinedBoard sockA = Some ''b1'' \<and>
   lockOf (locks stLockedA) ''b1'' ''s1'' = Some lockA0 \<and> socketId lockA0 = sid sockA \<and>
   snd (leave_board stLockedA sockA) = [(ToOthers ''b1'', UserLeft ''A'')] \<and>
   currentBoardId (snd (fst (leave_board stLockedA sockA))) = None \<and>
   lockOf (locks (fst (fst (leave_board stLockedA sockA)))) ''b1'' ''s1'' = Some lockA0 \<and>
   snd (disconnect stLockedA sockA) =
     [(ToOthers ''b1'', UserLeft ''A''), (ToRoom ''b1'', LockUpdate ''s1'' False None)] \<and>
   lockOf (locks (fst (disconnect stLockedA sockA))) ''b1'' ''s1'' = None"
proof -
  have a: "lockOf (locks stLockedA) ''b1'' ''s1'' = Some lockA0 \<and> socketId lockA0 = sid sockA"
    by (simp add: lockOf_own ex_notproto stLockedA_def lockA0_def sockA_def)
  have b: "snd (leave_board stLockedA sockA) = [(ToOthers ''b1'', UserLeft ''A'')] \<and>
   currentBoardId (snd (fst (leave_board stLockedA sockA))) = None \<and>
   lockOf (locks (fst (fst (leave_board stLockedA sockA)))) ''b1'' ''s1'' = Some lockA0"
    by (simp add: leave_board_def joinedBoard_def stLockedA_def presAB_def Let_def lockOf_own ex_notproto sockA_def)
  have c: "snd (disconnect stLockedA sockA) =
     [(ToOthers ''b1'', UserLeft ''A''), (ToRoom ''b1'', LockUpdate ''s1'' False None)] \<and>
   lockOf (locks (fst (disconnect stLockedA sockA))) ''b1'' ''s1'' = None"
    by (simp add: disconnect_def joinedBoard_def stLockedA_def presAB_def Let_def lockOf_own ex_notproto sockA_def
        keys_def releaseStep_def lockA0_def adel_def)
  show ?thesis using ex_joined(1) a b c by blast
qed

section \<open>Lock expiry\<close>

text \<open>
  C5 (as amended). A lock older than the timeout is treated as absent by every access check:
  when a connection joined to board \<open>b\<close> makes a request at a time \<open>now\<close> with
  \<open>now > T + 30000\<close>, where \<open>T\<close> is the timestamp of the lock held on object \<open>S\<close>, then
  the sweep that each check runs first removes the lock; a lock-object request for \<open>S\<close> is
  granted (no lock-failed) and the table then holds the requester's new lock; an update-shape
  or delete-shape request that reaches the lock check (the store answers and the board has a
  shape with id \<open>S\<close>) is carried out without the error
  \<^verbatim>\<open>Object is locked by another user\<close>, and the table holds no lock on \<open>S\<close> afterwards.
\<close>

theorem stale_lock_treated_as_absent:
  assumes j: "joinedBoard sock = Some b"
    and lk: "lockOf (locks st) b S = Some l"
    and stale: "now e > timestamp l + 30000"
  shows "lockOf (cleanExpiredLocks (locks st) b (now e)) b S = None \<and>
         snd (lock_object st sock e S) = [(ToRoom b, LockUpdate S True (Some (actorOrSid sock)))] \<and>
         lockOf (locks (fst (lock_object st sock e S))) b S =
           Some \<lparr>socketId = sid sock, userId = actorOrSid sock, timestamp = now e\<rparr> \<and>
         (fault e = NoFault \<and> db st b = Some board \<and>
          findIndex (has_id (Str S)) (shapes board) = Some i \<longrightarrow>
            snd (update_shape st sock e S changes) = [(ToRoom b, ShapeUpdated S changes)] \<and>
            lockOf (locks (fst (update_shape st sock e S changes))) b S = None) \<and>
         (fault e = NoFault \<and> db st b = Some board \<and>
          find (has_id (Str S)) (shapes board) = Some d \<longrightarrow>
            snd (delete_shape st sock e S) = [(ToRoom b, ShapeDeleted S)] \<and>
            lockOf (locks (fst (delete_shape st sock e S))) b S = None)"
proof -
  have ex: "expired (now e) l"
    using stale by (simp add: expired_def LOCK_TIMEOUT_def)
  have np: "S \<notin> set protoNames" using lk by (rule lockOf_notproto)
  have gone: "lockOf (cleanExpiredLocks (locks st) b (now e)) b S = None"
    by (simp add: lockOf_clean lk ex)
  have free: "\<not> lockedByOther (st\<lparr>locks := cleanExpiredLocks (locks st) b (now e)\<rparr>) sock b S"
    by (simp add: lockedByOther_clean np lk ex)
  note lo = lock_object_free [OF j np, of st e]
  have upd: "snd (update_shape st sock e S changes) = [(ToRoom b, ShapeUpdated S changes)] \<and>
            lockOf (locks (fst (update_shape st sock e S changes))) b S = None"
    if "fault e = NoFault" "db st b = Some board"
       "findIndex (has_id (Str S)) (shapes board) = Some i"
    using update_shape_ok [OF j that free, of changes] gone by simp
  have del: "snd (delete_shape st sock e S) = [(ToRoom b, ShapeDeleted S)] \<and>
            lockOf (locks (fst (delete_shape st sock e S))) b S = None"
    if "fault e = NoFault" "db st b = Some board"
       "find (has_id (Str S)) (shapes board) = Some d"
    using delete_shape_ok [OF j that free] gone by simp
  show ?thesis
    using gone lo upd del by blast
qed

theorem stale_lock_treated_as_absent_witness:
  "joinedBoard sockB = Some ''b1'' \<and>
   lockOf (locks stLockedA) ''b1'' ''s1'' = Some lockA0 \<and>
   now (at 30001) > timestamp lockA0 + 30000 \<and>
   fault (at 30001) = NoFault \<and>
   db stLockedA ''b1'' = Some boardC \<and>
   findIndex (has_id (Str ''s1'')) (shapes boardC) = Some 0 \<and>
   find (has_id (Str ''s1'')) (shapes boardC) = Some (rectAt 5) \<and>
   lockOf (cleanExpiredLocks (locks stLockedA) ''b1'' (now (at 30001))) ''b1'' ''s1'' = None \<and>
   snd (lock_object stLockedA sockB (at 30001) ''s1'') =
     [(ToRoom ''b1'', LockUpdate ''s1'' True (Some (actorOrSid sockB)))] \<and>
   lockOf (locks (fst (lock_object stLockedA sockB (at 30001) ''s1''))) ''b1'' ''s1'' =
     Some \<lparr>socketId = sid sockB, userId = actorOrSid sockB, timestamp = now (at 30001)\<rparr> \<and>
   snd (update_shape stLockedA sockB (at 30001) ''s1'' [(''x'', Num 5)]) =
     [(ToRoom ''b1'', ShapeUpdated ''s1'' [(''x'', Num 5)])] \<and>
   lockOf (locks (fst (update_shape stLockedA sockB (at 30001) ''s1'' [(''x'', Num 5)]))) ''b1'' ''s1'' = None \<and>
   snd (delete_shape stLockedA sockB (at 30001) ''s1'') = [(ToRoom ''b1'', ShapeDeleted ''s1'')] \<and>
   lockOf (locks (fst (delete_shape stLockedA sockB (at 30001) ''s1''))) ''b1'' ''s1'' = None"
proof -
  have h1: "joinedBoard sockB = Some ''b1''" by (rule ex_joined)
  have h2: "lockOf (locks stLockedA) ''b1'' ''s1'' = Some lockA0"
    by (simp add: lockOf_own ex_notproto stLockedA_def)
  have h3: "now (at 30001) > timestamp lockA0 + 30000"
    by (simp add: at_def lockA0_def)
  have h4: "fault (at 30001) = NoFault" by (simp add: at_def)
  have h5: "db stLockedA ''b1'' = Some boardC"
    by (simp add: stLockedA_def)
  have h6: "findIndex (has_id (Str ''s1'')) (shapes boardC) = Some 0"
    by (simp add: ex_has_id ex_boardC)
  have h7: "find (has_id (Str ''s1'')) (shapes boardC) = Some (rectAt 5)"
    by (simp add: ex_has_id ex_boardC)
  show ?thesis
    using stale_lock_treated_as_absent [OF h1 h2 h3,
        of boardC 0 "[(''x'', Num 5)]" "rectAt 5"]
      h1 h2 h3 h4 h5 h6 h7
    by (simp add: ex_has_id ex_boardC)
qed

text \<open>
  At \<open>now = T + 30000\<close> exactly the lock is still in force, since the sweep deletes a lock only
  when \<open>now - T > 30000\<close>: the lock that \<^verbatim>\<open>A\<close> took at time 0 makes the lock-object,
  update-shape and delete-shape requests of \<^verbatim>\<open>B\<close> at time 30000 fail, and stays in the table.
\<close>

theorem stale_lock_boundary_counterexample:
  "lockOf (locks stLockedA) ''b1'' ''s1'' =
     Some \<lparr>socketId = ''A'', userId = ''userA'', timestamp = 0\<rparr> \<and>
   snd (lock_object stLockedA sockB (at 30000) ''s1'') =
     [(ToSender, LockFailed ''s1'' (Some ''userA''))] \<and>
   snd (update_shape stLockedA sockB (at 30000) ''s1'' [(''x'', Num 5)]) =
     [(ToSender, Error ''Object is locked by another user'')] \<and>
   snd (delete_shape stLockedA sockB (at 30000) ''s1'') =
     [(ToSender, Error ''Object is locked by another user'')] \<and>
   lockOf (locks (fst (lock_object stLockedA sockB (at 30000) ''s1''))) ''b1'' ''s1'' =
     Some \<lparr>socketId = ''A'', userId = ''userA'', timestamp = 0\<rparr>"
proof -
  have lk: "lockOf (locks stLockedA) ''b1'' ''s1'' = Some lockA0"
    by (simp add: lockOf_own ex_notproto stLockedA_def)
  have live: "\<not> expired (now (at 30000)) lockA0"
    by (simp add: expired_def LOCK_TIMEOUT_def at_def lockA0_def)
  have cl: "lockOf (cleanExpiredLocks (locks stLockedA) ''b1'' (now (at 30000))) ''b1'' ''s1'' = Some lockA0"
    by (simp add: lockOf_clean lk live)
  have other: "socketId lockA0 \<noteq> sid sockB"
    by (simp add: lockA0_def sockB_def)
  have nf: "fault (at 30000) \<noteq> FindThrows" by (simp add: at_def)
  have bd: "db stLockedA ''b1'' = Some boardC"
    by (simp add: stLockedA_def)
  have fi: "findIndex (has_id (Str ''s1'')) (shapes boardC) = Some 0"
    by (simp add: ex_has_id ex_boardC)
  have fd: "find (has_id (Str ''s1'')) (shapes boardC) = Some (rectAt 5)"
    by (simp add: ex_has_id ex_boardC)
  have c1: "lockOf (locks stLockedA) ''b1'' ''s1'' =
     Some \<lparr>socketId = ''A'', userId = ''userA'', timestamp = 0\<rparr>"
    using lk by (simp add: lockA0_def)
  have c2: "snd (lock_object stLockedA sockB (at 30000) ''s1'') =
     [(ToSender, LockFailed ''s1'' (Some ''userA''))] \<and>
     lockOf (locks (fst (lock_object stLockedA sockB (at 30000) ''s1''))) ''b1'' ''s1'' =
     Some \<lparr>socketId = ''A'', userId = ''userA'', timestamp = 0\<rparr>"
    using lock_object_held [OF ex_joined(2) cl other] by (simp add: lockA0_def)
  have c3: "snd (update_shape stLockedA sockB (at 30000) ''s1'' [(''x'', Num 5)]) =
     [(ToSender, Error ''Object is locked by another user'')]"
    by (simp add: update_shape_conflict [OF ex_joined(2) nf bd fi lk live other])
  have c4: "snd (delete_shape stLockedA sockB (at 30000) ''s1'') =
     [(ToSender, Error ''Object is locked by another user'')]"
    by (simp add: delete_shape_conflict [OF ex_joined(2) nf bd fd lk live other])
  show ?thesis
    using c1 c2 c3 c4 by blast
qed

section \<open>Re-acquiring a lock\<close>

text \<open>
  C6 (as amended). When the holder of a live lock on \<open>S\<close> sends lock-object for \<open>S\<close> again, the
  request is granted (a lock-update with \<^verbatim>\<open>locked: true\<close> goes to the room, no lock-failed),
  and the lock is written anew: its timestamp becomes the time of this request, so the
  timeout is measured from the re-acquisition.
\<close>

theorem holder_reacquire_refreshes:
  assumes j: "joinedBoard sock = Some b"
    and lk: "lockOf (locks st) b S = Some l"
    and holder: "socketId l = sid sock"
    and live: "now e - timestamp l \<le> 30000"
  shows "snd (lock_object st sock e S) = [(ToRoom b, LockUpdate S True (Some (actorOrSid sock)))] \<and>
         lockOf (locks (fst (lock_object st sock e S))) b S =
           Some \<lparr>socketId = sid sock, userId = actorOrSid sock, timestamp = now e\<rparr>"
proof -
  have "\<not> expired (now e) l"
    using live by (simp add: expired_def LOCK_TIMEOUT_def)
  then have "lockOf (cleanExpiredLocks (locks st) b (now e)) b S = Some l"
    by (simp add: lockOf_clean lk)
  then show ?thesis
    using lock_object_free [OF j lockOf_notproto [OF lk], of st e] holder by simp
qed

theorem holder_reacquire_refreshes_witness:
  "joinedBoard sockA = Some ''b1'' \<and>
   lockOf (locks stLockedA) ''b1'' ''s1'' = Some lockA0 \<and>
   socketId lockA0 = sid sockA \<and>
   now (at 10000) - timestamp lockA0 \<le> 30000 \<and>
   snd (lock_object stLockedA sockA (at 10000) ''s1'') =
     [(ToRoom ''b1'', LockUpdate ''s1'' True (Some (actorOrSid sockA)))] \<and>
   lockOf (locks (fst (lock_object stLockedA sockA (at 10000) ''s1''))) ''b1'' ''s1'' =
     Some \<lparr>socketId = sid sockA, userId = actorOrSid sockA, timestamp = now (at 10000)\<rparr>"
proof -
  have h1: "joinedBoard sockA = Some ''b1''" by (rule ex_joined)
  have h2: "lockOf (locks stLockedA) ''b1'' ''s1'' = Some lockA0"
    by (simp add: lockOf_own ex_notproto stLockedA_def)
  have h3: "socketId lockA0 = sid sockA" by (simp add: lockA0_def sockA_def)
  have h4: "now (at 10000) - timestamp lockA0 \<le> 30000" by (simp add: at_def lockA0_def)
  show ?thesis
    using holder_reacquire_refreshes [OF h1 h2 h3 h4] h1 h2 h3 h4 by simp
qed

text \<open>
  The original timestamp is not kept: the lock taken at time 0 and taken again by its holder
  at time 10000 carries the timestamp 10000.
\<close>

theorem holder_reacquire_counterexample:
  "lockOf (locks stLockedA) ''b1'' ''s1'' =
     Some \<lparr>socketId = ''A'', userId = ''userA'', timestamp = 0\<rparr> \<and>
   snd (lock_object stLockedA sockA (at 10000) ''s1'') =
     [(ToRoom ''b1'', LockUpdate ''s1'' True (Some ''userA''))] \<and>
   lockOf (locks (fst (lock_object stLockedA sockA (at 10000) ''s1''))) ''b1'' ''s1'' =
     Some \<lparr>socketId = ''A'', userId = ''userA'', timestamp = 10000\<rparr>"
proof -
  have lk: "lockOf (locks stLockedA) ''b1'' ''s1'' = Some lockA0"
    by (simp add: lockOf_own ex_notproto stLockedA_def)
  have live: "\<not> expired (now (at 10000)) lockA0"
    by (simp add: expired_def LOCK_TIMEOUT_def at_def lockA0_def)
  have cl: "lockOf (cleanExpiredLocks (locks stLockedA) ''b1'' (now (at 10000))) ''b1'' ''s1'' = Some lockA0"
    by (simp add: lockOf_clean lk live)
  have own: "socketId lockA0 = sid sockA" by (simp add: lockA0_def sockA_def)
  show ?thesis
    using lock_object_free [OF ex_joined(1) ex_notproto(1), of stLockedA "at 10000"] cl own lk
    by (simp add: lockA0_def sockA_def at_def actorOrSid_def actor_def)
qed

section \<open>Locks gate update and delete\<close>

text \<open>
  C7 (as amended). Let \<^verbatim>\<open>A\<close> and \<^verbatim>\<open>B\<close> be different connections joined to board \<open>b\<close>, let the
  board have a shape with id \<open>S\<close> and let \<^verbatim>\<open>A\<close> hold a live lock on \<open>S\<close>. With the store
  answering, an update-shape or delete-shape request of \<^verbatim>\<open>B\<close> for \<open>S\<close> is answered with the
  error \<^verbatim>\<open>Object is locked by another user\<close> to \<^verbatim>\<open>B\<close> alone; the stored boards and the
  presence table are as before (only the sweep of expired locks has run), and nothing is
  sent to the room. The same requests of \<^verbatim>\<open>A\<close> are carried out: the change is assigned, or the
  shape removed, the op is appended to the log and the event goes to the room.
\<close>

theorem lock_conflict_rejected:
  assumes jA: "joinedBoard sa = Some b" and jB: "joinedBoard sb = Some b"
    and diff: "sid sb \<noteq> sid sa"
    and board: "db st b = Some board"
    and mem: "s \<in> set (shapes board)" and hasS: "has_id (Str S) s"
    and lk: "lockOf (locks st) b S = Some l" and holder: "socketId l = sid sa"
    and live: "\<not> expired (now e) l"
    and nofault: "fault e = NoFault"
  shows "update_shape st sb e S changes =
           (st\<lparr>locks := cleanExpiredLocks (locks st) b (now e)\<rparr>,
            [(ToSender, Error ''Object is locked by another user'')]) \<and>
         delete_shape st sb e S =
           (st\<lparr>locks := cleanExpiredLocks (locks st) b (now e)\<rparr>,
            [(ToSender, Error ''Object is locked by another user'')]) \<and>
         (\<exists>i. findIndex (has_id (Str S)) (shapes board) = Some i \<and>
            update_shape st sa e S changes =
              (st\<lparr>locks := cleanExpiredLocks (locks st) b (now e),
                  db := (db st)(b \<mapsto>
                    board\<lparr>shapes := (shapes board)[i := assign (shapes board ! i) changes],
                          ops := ops board @
                            [\<lparr>payload = Update (Str S) changes
                                 (Some (foldl (\<lambda>old key. aset key (get (shapes board ! i) key) old) []
                                          (keys changes))),
                              createdBy = actor sa, createdAt = now e\<rparr>]\<rparr>)\<rparr>,
               [(ToRoom b, ShapeUpdated S changes)])) \<and>
         (\<exists>d. find (has_id (Str S)) (shapes board) = Some d \<and>
            delete_shape st sa e S =
              (st\<lparr>locks := cleanExpiredLocks (locks st) b (now e),
                  db := (db st)(b \<mapsto>
                    board\<lparr>shapes := filter (\<lambda>s. \<not> has_id (Str S) s) (shapes board),
                          ops := ops board @
                            [\<lparr>payload = Delete (Str S) d, createdBy = actor sa,
                              createdAt = now e\<rparr>]\<rparr>)\<rparr>,
               [(ToRoom b, ShapeDeleted S)]))"
proof -
  obtain i where fi: "findIndex (has_id (Str S)) (shapes board) = Some i"
    using findIndex_Some_mem [of s "shapes board" "has_id (Str S)"] mem hasS by blast
  obtain d where fd: "find (has_id (Str S)) (shapes board) = Some d"
    using find_Some_mem [of s "shapes board" "has_id (Str S)"] mem hasS by blast
  have nf: "fault e \<noteq> FindThrows" using nofault by simp
  have other: "socketId l \<noteq> sid sb" using holder diff by simp
  have mine: "\<not> lockedByOther (st\<lparr>locks := cleanExpiredLocks (locks st) b (now e)\<rparr>) sa b S"
    by (simp add: lockedByOther_clean lockOf_notproto [OF lk] lk holder)
  have u: "update_shape st sb e S changes =
           (st\<lparr>locks := cleanExpiredLocks (locks st) b (now e)\<rparr>,
            [(ToSender, Error ''Object is locked by another user'')])"
    by (rule update_shape_conflict [OF jB nf board fi lk live other])
  have d: "delete_shape st sb e S =
           (st\<lparr>locks := cleanExpiredLocks (locks st) b (now e)\<rparr>,
            [(ToSender, Error ''Object is locked by another user'')])"
    by (rule delete_shape_conflict [OF jB nf board fd lk live other])
  note ua = update_shape_ok [OF jA nofault board fi mine, of changes]
  note da = delete_shape_ok [OF jA nofault board fd mine]
  show ?thesis
    using u d ua da fi fd by blast
qed

theorem lock_conflict_rejected_witness:
  "joinedBoard sockA = Some ''b1'' \<and> joinedBoard sockB = Some ''b1'' \<and>
   sid sockB \<noteq> sid sockA \<and>
   db stLockedA ''b1'' = Some boardC \<and>
   rectAt 5 \<in> set (shapes boardC) \<and> has_id (Str ''s1'') (rectAt 5) \<and>
   lockOf (locks stLockedA) ''b1'' ''s1'' = Some lockA0 \<and> socketId lockA0 = sid sockA \<and>
   \<not> expired (now (at 1000)) lockA0 \<and> fault (at 1000) = NoFault \<and>
   snd (update_shape stLockedA sockB (at 1000) ''s1'' [(''x'', Num 5)]) =
     [(ToSender, Error ''Object is locked by another user'')] \<and>
   db (fst (update_shape stLockedA sockB (at 1000) ''s1'' [(''x'', Num 5)])) = db stLockedA \<and>
   snd (delete_shape stLockedA sockB (at 1000) ''s1'') =
     [(ToSender, Error ''Object is locked by another user'')] \<and>
   db (fst (delete_shape stLockedA sockB (at 1000) ''s1'')) = db stLockedA \<and>
   snd (update_shape stLockedA sockA (at 1000) ''s1'' [(''x'', Num 5)]) =
     [(ToRoom ''b1'', ShapeUpdated ''s1'' [(''x'', Num 5)])] \<and>
   snd (delete_shape stLockedA sockA (at 1000) ''s1'') = [(ToRoom ''b1'', ShapeDeleted ''s1'')]"
proof -
  have h1: "joinedBoard sockA = Some ''b1''" by (rule ex_joined)
  have h2: "joinedBoard sockB = Some ''b1''" by (rule ex_joined)
  have h3: "sid sockB \<noteq> sid sockA" by (simp add: sockA_def sockB_def)
  have h4: "db stLockedA ''b1'' = Some boardC"
    by (simp add: stLockedA_def)
  have h5: "rectAt 5 \<in> set (shapes boardC)" by (simp add: ex_boardC)
  have h6: "has_id (Str ''s1'') (rectAt 5)"
    by (simp add: has_id_def strict_eq_def get_def rectAt_def)
  have h7: "lockOf (locks stLockedA) ''b1'' ''s1'' = Some lockA0"
    by (simp add: lockOf_own ex_notproto stLockedA_def)
  have h8: "socketId lockA0 = sid sockA" by (simp add: lockA0_def sockA_def)
  have h9: "\<not> expired (now (at 1000)) lockA0"
    by (simp add: expired_def LOCK_TIMEOUT_def at_def lockA0_def)
  have h10: "fault (at 1000) = NoFault" by (simp add: at_def)
  note t = lock_conflict_rejected [OF h1 h2 h3 h4 h5 h6 h7 h8 h9 h10, of "[(''x'', Num 5)]"]
  from t have "snd (update_shape stLockedA sockB (at 1000) ''s1'' [(''x'', Num 5)]) =
     [(ToSender, Error ''Object is locked by another user'')] \<and>
   db (fst (update_shape stLockedA sockB (at 1000) ''s1'' [(''x'', Num 5)])) = db stLockedA \<and>
   snd (delete_shape stLockedA sockB (at 1000) ''s1'') =
     [(ToSender, Error ''Object is locked by another user'')] \<and>
   db (fst (delete_shape stLockedA sockB (at 1000) ''s1'')) = db stLockedA \<and>
   snd (update_shape stLockedA sockA (at 1000) ''s1'' [(''x'', Num 5)]) =
     [(ToRoom ''b1'', ShapeUpdated ''s1'' [(''x'', Num 5)])] \<and>
   snd (delete_shape stLockedA sockA (at 1000) ''s1'') = [(ToRoom ''b1'', ShapeDeleted ''s1'')]"
    by auto
  then show ?thesis
    using h1 h2 h3 h4 h5 h6 h7 h8 h9 h10 by simp
qed

text \<open>
  Without a shape of that id the lock is never looked at: the handlers search the shape
  first. With \<^verbatim>\<open>A\<close> holding a live lock on the object id \<^verbatim>\<open>s9\<close>, which no shape carries, the
  requests of \<^verbatim>\<open>B\<close> are answered with \<^verbatim>\<open>Shape not found\<close>, not with the lock error, and the
  requests of \<^verbatim>\<open>A\<close> fail in the same way.
\<close>

theorem lock_conflict_needs_shape_counterexample:
  "lockOf (locks stGhost) ''b1'' ''s9'' =
     Some \<lparr>socketId = ''A'', userId = ''userA'', timestamp = 0\<rparr> \<and>
   update_shape stGhost sockB (at 1000) ''s9'' [(''x'', Num 5)] =
     (stGhost, [(ToSender, Error ''Shape not found'')]) \<and>
   delete_shape stGhost sockB (at 1000) ''s9'' = (stGhost, [(ToSender, Error ''Shape not found'')]) \<and>
   update_shape stGhost sockA (at 1000) ''s9'' [(''x'', Num 5)] =
     (stGhost, [(ToSender, Error ''Shape not found'')]) \<and>
   delete_shape stGhost sockA (at 1000) ''s9'' = (stGhost, [(ToSender, Error ''Shape not found'')])"
  by (simp add: update_shape_def delete_shape_def ex_joined at_def stGhost_def ex_has_id ex_boardC
      lockOf_own ex_notproto lockA0_def)

section \<open>Undo of a create and of a delete\<close>



section \<open>Requests of a connection that has joined no board\<close>

text \<open>
  C9. A connection whose \<^verbatim>\<open>currentBoardId\<close> is \<^verbatim>\<open>null\<close> has joined no board. Each of its
  draw-start, draw-delta, draw-end, create-shape, update-shape, delete-shape, undo,
  lock-object, unlock-object and cursor-move requests returns the state as it was (boards,
  locks and presence) and emits nothing, to nobody: no error event either.
\<close>

theorem unjoined_requests_ignored:
  assumes "currentBoardId sock = None"
  shows "draw_start st sock data = (st, []) \<and>
         draw_delta st sock data = (st, []) \<and>
         draw_end st sock e data = (st, []) \<and>
         create_shape st sock e data = (st, []) \<and>
         update_shape st sock e shapeId changes = (st, []) \<and>
         delete_shape st sock e shapeId = (st, []) \<and>
         undo st sock e = (st, []) \<and>
         lock_object st sock e objectId = (st, []) \<and>
         unlock_object st sock objectId = (st, []) \<and>
         cursor_move st sock data = (st, [])"
proof -
  have nj: "joinedBoard sock = None"
    using assms by (simp add: joinedBoard_def)
  show ?thesis
    by (simp add: nj draw_start_def draw_delta_def draw_end_def create_shape_def
        update_shape_def delete_shape_def undo_def lock_object_def unlock_object_def
        cursor_move_def)
qed

theorem unjoined_requests_ignored_witness:
  "currentBoardId sockU = None \<and>
   draw_start (stOf boardC) sockU rectData = ((stOf boardC), []) \<and>
   draw_delta (stOf boardC) sockU rectData = ((stOf boardC), []) \<and>
   draw_end (stOf boardC) sockU (at 7) rectData = ((stOf boardC), []) \<and>
   create_shape (stOf boardC) sockU (at 7) rectData = ((stOf boardC), []) \<and>
   update_shape (stOf boardC) sockU (at 7) ''s1'' [(''x'', Num 5)] = ((stOf boardC), []) \<and>
   delete_shape (stOf boardC) sockU (at 7) ''s1'' = ((stOf boardC), []) \<and>
   undo (stOf boardC) sockU (at 7) = ((stOf boardC), []) \<and>
   lock_object (stOf boardC) sockU (at 7) ''s1'' = ((stOf boardC), []) \<and>
   unlock_object (stOf boardC) sockU ''s1'' = ((stOf boardC), []) \<and>
   cursor_move (stOf boardC) sockU [(''x'', Num 1), (''y'', Num 2)] = ((stOf boardC), [])"
proof -
  have h: "currentBoardId sockU = None"
    by (simp add: sockU_def)
  show ?thesis
    using h unjoined_requests_ignored [OF h, of "stOf boardC" rectData "at 7" "''s1''" "[(''x'', Num 5)]" "''s1''"]
      unjoined_requests_ignored [OF h, of "stOf boardC" "[(''x'', Num 1), (''y'', Num 2)]" "at 7" "''s1''" "[]" "''s1''"]
    by simp
qed

section \<open>An update may change the id\<close>




end
